theory Spec2Isabelle
  imports Main
begin

section \<open>The Topic binding of node-rdkafka (src/topic.cc)\<close>

text \<open>
  The file under verification wraps a native \<open>RdKafka::Topic\<close> for the JavaScript host.
  Its functions are \<open>Connection::Topic::Topic\<close> (the constructor), \<open>New\<close> (the
  JavaScript constructor callback), \<open>toRdKafkaTopic\<close>, \<open>Name\<close>, \<open>NodeGet\<close> and
  \<open>NodeGetName\<close>. Everything they call outside this file (the V8 value conversions, the
  \<open>Baton\<close> result type, \<open>Conf::create\<close>, \<open>RdKafka::Conf::get\<close>,
  \<open>Connection::CreateTopic\<close>, \<open>Connection::IsConnected\<close>, \<open>ObjectWrap::Unwrap\<close>) is not part
  of the file: the functions enter the model as parameters, and the \<open>Baton\<close> type as a
  record of the two things topic.cc reads from it.
\<close>

subsection \<open>JavaScript values and how a callback completes\<close>

text \<open>
  The values a callback receives in \<open>info\<close>. \<open>'o\<close> is the payload of a JavaScript object
  (its properties, or the native object it wraps) and \<open>'s\<close> the type of JavaScript strings
  (sequences of 16-bit code units); the model looks inside neither.
\<close>

datatype ('o, 's) Value = Undefined | JsNumber int | JsString 's | JsObject 'o

fun IsString :: "('o, 's) Value \<Rightarrow> bool" where
  "IsString (JsString s) = True"
| "IsString v = False"

fun IsObject :: "('o, 's) Value \<Rightarrow> bool" where
  "IsObject (JsObject ob) = True"
| "IsObject v = False"

text \<open>
  \<open>info[i]\<close> of \<open>Nan::FunctionCallbackInfo\<close>: the i-th argument, and \<open>undefined\<close> past
  the last one.
\<close>

definition info_at :: "('o, 's) Value list \<Rightarrow> nat \<Rightarrow> ('o, 's) Value" where
  "info_at info i = (if i < length info then info ! i else Undefined)"

text \<open>
  A callback either throws a JavaScript error (\<open>Nan::ThrowError(msg)\<close>), sets a return
  value, or runs into undefined behaviour of the C++ (a null or foreign pointer is
  dereferenced), which the model records as \<open>Crashed\<close>.
\<close>

datatype 'a completion = Threw string | Returned 'a | Crashed

text \<open>
  \<open>std::string s(p)\<close> for a \<open>const char*\<close> \<open>p\<close>, and \<open>s.c_str()\<close> read as a C string:
  the bytes up to the first NUL.
\<close>

definition std_string :: "string \<Rightarrow> string" where
  "std_string s = takeWhile (\<lambda>c. c \<noteq> CHR 0x00) s"

subsection \<open>Results of the native library\<close>

text \<open>
  \<open>RdKafka::ErrorCode\<close>: the two codes the file names, and any other code by its number.
\<close>

datatype ErrorCode = ERR_NO_ERROR | ERR__STATE | ERR_other int

datatype ConfResult = CONF_UNKNOWN | CONF_INVALID | CONF_OK

text \<open>
  Modelled from the spec: \<open>Baton\<close> is declared in src/common.h, which is not among the
  sources. Section 6 of the spec gives \<open>CreateTopic(name, config) -> (handle, errorCode)\<close>:
  a Baton carries an error code and a data pointer (\<open>None\<close> is the null pointer).
  \<open>Baton(data)\<close> is the successful Baton around a pointer, \<open>Baton(code)\<close> the one that
  carries an error code only.
\<close>

record 'a Baton =
  err :: ErrorCode
  data :: "'a option"

definition Baton_data :: "'a option \<Rightarrow> 'a Baton" where
  "Baton_data d = \<lparr>err = ERR_NO_ERROR, data = d\<rparr>"

definition Baton_err :: "ErrorCode \<Rightarrow> 'a Baton" where
  "Baton_err e = \<lparr>err = e, data = None\<rparr>"

subsection \<open>The code outside the file\<close>

text \<open>
  The functions topic.cc calls and does not define, as parameters of the model.
  \<open>'conn\<close> is the state of a Connection object, \<open>'conf\<close> a native \<open>RdKafka::Conf\<close>,
  \<open>'rd\<close> a native \<open>RdKafka::Topic\<close>.
  \<^item> \<open>IsConnected\<close>: \<open>Connection::IsConnected()\<close> on the connection's current state.
  \<^item> \<open>CreateTopic\<close>: \<open>Connection::CreateTopic(name, config)\<close>; it returns a Baton and
    may change the connection.
  \<^item> \<open>Conf_create\<close>: \<open>Conf::create(CONF_TOPIC, object, errstr)\<close>; \<open>Inl errstr\<close> is the
    null result with the error text it leaves in \<open>errstr\<close>.
  \<^item> \<open>Conf_get\<close>: \<open>RdKafka::Conf::get(key, value)\<close>, a const member function: the
    result code and the text it leaves in \<open>value\<close> (section 6 of the spec:
    \<open>Conf.get(key) -> (ConfResult, value)\<close>).
  \<^item> \<open>Unwrap_Connection\<close>: \<open>ObjectWrap::Unwrap<Connection>(v->ToObject())\<close>, the address
    of the Connection a value wraps; \<open>None\<close> is the null pointer.
  \<^item> \<open>v8_ToString\<close>: V8's string conversion of a value that is not a string, taken
    as total (a conversion that throws or runs code of the caller is outside the model).
  \<^item> \<open>Utf8String\<close>: \<open>*Nan::Utf8String(s)\<close>, the bytes of the UTF-8 encoding V8 writes
    for a JavaScript string.
  \<^item> \<open>Nan_New\<close>: \<open>Nan::New(std::string)\<close>, the JavaScript string V8 decodes from UTF-8
    bytes.
\<close>

record ('o, 's, 'conn, 'conf, 'rd) externals =
  IsConnected :: "'conn \<Rightarrow> bool"
  CreateTopic :: "'conn \<Rightarrow> string \<Rightarrow> 'conf \<Rightarrow> 'rd Baton \<times> 'conn"
  Conf_create :: "('o, 's) Value \<Rightarrow> string + 'conf"
  Conf_get :: "'conf \<Rightarrow> string \<Rightarrow> ConfResult \<times> string"
  Unwrap_Connection :: "('o, 's) Value \<Rightarrow> nat option"
  v8_ToString :: "('o, 's) Value \<Rightarrow> 's"
  Utf8String :: "'s \<Rightarrow> string"
  Nan_New :: "string \<Rightarrow> 's"

text \<open>\<open>v->ToString()\<close>: a string value converts to itself.\<close>

definition ToString ::
  "('o, 's, 'conn, 'conf, 'rd) externals \<Rightarrow> ('o, 's) Value \<Rightarrow> 's" where
  "ToString ext v = (case v of JsString s \<Rightarrow> s | _ \<Rightarrow> v8_ToString ext v)"

subsection \<open>Topic objects and the state they live in\<close>

text \<open>
  The four members of \<open>Connection::Topic\<close>. \<open>m_topic\<close> and \<open>m_handle\<close> are pointers the
  code tests for null; \<open>m_handle\<close> is the address of the owning Connection. \<open>m_config\<close>
  is the configuration \<open>New\<close> built for this Topic (\<open>New\<close> never constructs a Topic
  around a null configuration).
\<close>

record ('conf, 'rd) Topic =
  m_topic :: "'rd option"
  m_topic_name :: string
  m_config :: 'conf
  m_handle :: "nat option"

text \<open>
  The mutable state the file works on: the Connection object at each address, and the
  Topic objects constructed so far. A wrapped Topic is referred to by its position in
  \<open>topics\<close>.
\<close>

record ('conn, 'conf, 'rd) world =
  connections :: "nat \<Rightarrow> 'conn"
  topics :: "('conf, 'rd) Topic list"

subsection \<open>The functions of topic.cc\<close>

text \<open>
  \<open>Connection::Topic::Topic(topic_name, config, handle)\<close>, lines 32-45. The constructor
  calls \<open>handle->CreateTopic\<close> without testing \<open>handle\<close>: a null handle is undefined
  behaviour (\<open>None\<close>). \<open>m_topic\<close> starts as null and is set only when the Baton carries
  \<open>ERR_NO_ERROR\<close>.
\<close>

definition Topic_ctor ::
  "('o, 's, 'conn, 'conf, 'rd) externals \<Rightarrow> (nat \<Rightarrow> 'conn) \<Rightarrow> string \<Rightarrow> 'conf
    \<Rightarrow> nat option
    \<Rightarrow> (('conf, 'rd) Topic \<times> (nat \<Rightarrow> 'conn)) option" where
  "Topic_ctor ext conns topic_name config handle =
     (case handle of
        None \<Rightarrow> None
      | Some h \<Rightarrow>
          (let (b, c') = CreateTopic ext (conns h) topic_name config
           in Some (\<lparr>m_topic = (if err b = ERR_NO_ERROR then data b else None),
                      m_topic_name = topic_name,
                      m_config = config,
                      m_handle = Some h\<rparr>,
                    conns(h := c'))))"

text \<open>
  \<open>Connection::Topic::New(info)\<close>, lines 69-110. On success the new Topic is wrapped in
  \<open>info.This()\<close>, which is returned: the model returns the Topic's position.
\<close>

definition New ::
  "('o, 's, 'conn, 'conf, 'rd) externals \<Rightarrow> ('conn, 'conf, 'rd) world \<Rightarrow> bool
    \<Rightarrow> ('o, 's) Value list
    \<Rightarrow> nat completion \<times> ('conn, 'conf, 'rd) world" where
  "New ext w IsConstructCall info =
     (if \<not> IsConstructCall then
        (Threw ''non-constructor invocation not supported'', w)
      else if length info < 3 then
        (Threw ''Handle, topic name and configuration required'', w)
      else if \<not> IsString (info_at info 0) then
        (Threw ''Topic name must be a string'', w)
      else
        (let topic_name = std_string (Utf8String ext (ToString ext (info_at info 0))) in
         if \<not> IsObject (info_at info 1) then
           (Threw ''Configuration data must be specified'', w)
         else
           (case Conf_create ext (info_at info 1) of
              Inl errstr \<Rightarrow> (Threw (std_string errstr), w)
            | Inr config \<Rightarrow>
                (case Topic_ctor ext (connections w) topic_name config
                        (Unwrap_Connection ext (info_at info 2)) of
                   None \<Rightarrow> (Crashed, w)
                 | Some (topic, conns') \<Rightarrow>
                     (Returned (length (topics w)),
                      w\<lparr>connections := conns', topics := topics w @ [topic]\<rparr>)))))"

text \<open>
  \<open>Connection::Topic::toRdKafkaTopic()\<close>, lines 127-133. The connection is read from
  the state the call runs in.
\<close>

definition toRdKafkaTopic ::
  "('o, 's, 'conn, 'conf, 'rd) externals \<Rightarrow> ('conn, 'conf, 'rd) world \<Rightarrow> ('conf, 'rd) Topic
    \<Rightarrow> 'rd Baton" where
  "toRdKafkaTopic ext w topic =
     (case m_handle topic of
        None \<Rightarrow> Baton_err ERR__STATE
      | Some h \<Rightarrow>
          if \<not> IsConnected ext (connections w h) then Baton_err ERR__STATE
          else Baton_data (m_topic topic))"

text \<open>\<open>Connection::Topic::Name()\<close>, lines 135-137.\<close>

definition Name :: "('conf, 'rd) Topic \<Rightarrow> string" where
  "Name topic = m_topic_name topic"

text \<open>
  \<open>Connection::Topic::NodeGet\<close>, lines 147-172. \<open>this\<close> is the receiver
  \<open>info.This()\<close>; unwrapping a receiver that is no Topic is undefined behaviour. The
  function assigns to no member and calls only the const \<open>get\<close>, so every branch
  returns the state it was given.
\<close>

definition NodeGet ::
  "('o, 's, 'conn, 'conf, 'rd) externals \<Rightarrow> ('conn, 'conf, 'rd) world \<Rightarrow> nat
    \<Rightarrow> ('o, 's) Value list
    \<Rightarrow> ('o, 's) Value completion \<times> ('conn, 'conf, 'rd) world" where
  "NodeGet ext w this info =
     (if length (topics w) \<le> this then (Crashed, w)
      else
        (let topic = topics w ! this in
         if length info < 1 then
           (Threw ''Must provide a config key to lookup.'', w)
         else
           (let config_key = std_string (Utf8String ext (ToString ext (info_at info 0)));
                topic_conf = m_config topic;
                (res, val) = Conf_get ext topic_conf config_key
            in case res of
                 CONF_UNKNOWN \<Rightarrow> (Returned Undefined, w)
               | CONF_INVALID \<Rightarrow> (Threw ''Topic configuration retroactively invalid...'', w)
               | CONF_OK \<Rightarrow> (Returned (JsString (Nan_New ext val)), w))))"

text \<open>\<open>Connection::Topic::NodeGetName\<close>, lines 174-178.\<close>

definition NodeGetName ::
  "('o, 's, 'conn, 'conf, 'rd) externals \<Rightarrow> ('conn, 'conf, 'rd) world \<Rightarrow> nat
    \<Rightarrow> ('o, 's) Value list
    \<Rightarrow> ('o, 's) Value completion \<times> ('conn, 'conf, 'rd) world" where
  "NodeGetName ext w this info =
     (if length (topics w) \<le> this then (Crashed, w)
      else (Returned (JsString (Nan_New ext (Name (topics w ! this)))), w))"


subsection \<open>A caller that looks up several keys in turn\<close>

text \<open>
  Successive \<open>get\<close> calls on one Topic, each in the state the previous one left: the
  completions in order, and the final state.
\<close>

fun NodeGet_all ::
  "('o, 's, 'conn, 'conf, 'rd) externals \<Rightarrow> ('conn, 'conf, 'rd) world \<Rightarrow> nat
    \<Rightarrow> ('o, 's) Value list list
    \<Rightarrow> ('o, 's) Value completion list \<times> ('conn, 'conf, 'rd) world" where
  "NodeGet_all ext w this [] = ([], w)"
| "NodeGet_all ext w this (info # infos) =
     (let (r, w') = NodeGet ext w this info;
          (rs, w'') = NodeGet_all ext w' this infos
      in (r # rs, w''))"

subsection \<open>A concrete library for the examples\<close>

text \<open>
  The scenario of section 8 of the spec, \<open>createTopic("orders", {"acks":"1"}, connA)\<close>,
  needs the parameters instantiated. Here a JavaScript string is a string of ASCII
  characters, which UTF-8 encodes as itself; a JavaScript object is either a list of
  string properties (\<open>Inl\<close>) or the wrapper of the Connection at an address (\<open>Inr\<close>); a
  Connection's state is its connected flag; a native topic is its name; a native
  configuration lists its properties, a property with value \<open>None\<close> being one the
  library reports as invalid. \<open>CreateTopic\<close> fails with \<open>ERR__STATE\<close> on a connection
  that is not connected; \<open>Conf::create\<close> knows two property names and rejects any other.
\<close>

definition example_ext ::
  "((string \<times> string) list + nat, string, bool, (string \<times> string option) list, string)
    externals" where
  "example_ext =
     \<lparr>IsConnected = (\<lambda>c. c),
      CreateTopic = (\<lambda>c name conf.
        (if c then Baton_data (Some name) else Baton_err ERR__STATE, c)),
      Conf_create = (\<lambda>v. case v of
          JsObject (Inl kvs) \<Rightarrow>
            if list_all (\<lambda>kv. fst kv = ''acks'' \<or> fst kv = ''compression.codec'') kvs
            then Inr (map (\<lambda>kv. (fst kv, Some (snd kv))) kvs)
            else Inl ''No such configuration property''
        | _ \<Rightarrow> Inl ''Configuration must be an object''),
      Conf_get = (\<lambda>conf k. case map_of conf k of
          None \<Rightarrow> (CONF_UNKNOWN, '''')
        | Some None \<Rightarrow> (CONF_INVALID, '''')
        | Some (Some v) \<Rightarrow> (CONF_OK, v)),
      Unwrap_Connection = (\<lambda>v. case v of JsObject (Inr p) \<Rightarrow> Some p | _ \<Rightarrow> None),
      v8_ToString = (\<lambda>v. ''[object Object]''),
      Utf8String = (\<lambda>s. s),
      Nan_New = (\<lambda>s. s)\<rparr>"

text \<open>A state with no Topic yet, in which every connection is connected or none is.\<close>

definition example_world ::
  "bool \<Rightarrow> (bool, (string \<times> string option) list, string) world" where
  "example_world up = \<lparr>connections = (\<lambda>p. up), topics = []\<rparr>"

text \<open>The arguments of \<open>new Topic("orders", {"acks": acks}, connA)\<close>, connA at address 0.\<close>

definition orders_info :: "string \<Rightarrow> ((string \<times> string) list + nat, string) Value list" where
  "orders_info acks =
     [JsString ''orders'', JsObject (Inl [(''acks'', acks)]), JsObject (Inr 0)]"

text \<open>
  A Topic \<open>orders\<close> on connection 0 whose configuration holds \<open>acks = 1\<close> and a
  property the library has come to report as invalid, and a state that holds it.
\<close>

definition example_topic :: "((string \<times> string option) list, string) Topic" where
  "example_topic =
     \<lparr>m_topic = Some ''orders'',
      m_topic_name = ''orders'',
      m_config = [(''acks'', Some ''1''), (''partitioner_cb'', None)],
      m_handle = Some 0\<rparr>"

definition example_topic_world ::
  "bool \<Rightarrow> (bool, (string \<times> string option) list, string) world" where
  "example_topic_world up = \<lparr>connections = (\<lambda>p. up), topics = [example_topic]\<rparr>"

text \<open>
  The state after \<open>orders\<close> has been created twice on the connected connection 0, first
  with \<open>acks = 1\<close> and then with \<open>acks = 0\<close>.
\<close>

definition orders_twice :: "(bool, (string \<times> string option) list, string) world" where
  "orders_twice =
     snd (New example_ext
            (snd (New example_ext (example_world True) True (orders_info ''1'')))
            True (orders_info ''0''))"

section \<open>Properties\<close>

subsection \<open>Shared lemmas\<close>

lemma std_string_id: "CHR 0x00 \<notin> set s \<Longrightarrow> std_string s = s"
  by (auto simp: std_string_def)

lemma NodeGet_frame: "snd (NodeGet ext w this info) = w"
  by (simp add: NodeGet_def Let_def split: prod.splits ConfResult.splits)

text \<open>
  What \<open>New\<close> does once its checks have passed: it appends one Topic, built from the
  Baton \<open>CreateTopic\<close> returned, and returns its position.
\<close>

lemma New_constructs:
  assumes "3 \<le> length info" and "IsString (info_at info 0)" and "IsObject (info_at info 1)"
    and "Conf_create ext (info_at info 1) = Inr config"
    and "Unwrap_Connection ext (info_at info 2) = Some h"
    and "CreateTopic ext (connections w h)
           (std_string (Utf8String ext (ToString ext (info_at info 0)))) config = (b, c')"
  shows "New ext w True info =
           (Returned (length (topics w)),
            w\<lparr>connections := (connections w)(h := c'),
              topics := topics w @
                [\<lparr>m_topic = (if err b = ERR_NO_ERROR then data b else None),
                  m_topic_name = std_string (Utf8String ext (ToString ext (info_at info 0))),
                  m_config = config,
                  m_handle = Some h\<rparr>]\<rparr>)"
  using assms by (simp add: New_def Topic_ctor_def)

text \<open>The example library's strings convert to themselves.\<close>

lemma example_conversions:
  "Utf8String example_ext s = s"
  "Nan_New example_ext s = s"
  by (simp_all add: example_ext_def)

text \<open>The example library on the arguments of the scenario.\<close>

lemma orders_info_valid:
  "3 \<le> length (orders_info acks)"
  "info_at (orders_info acks) 0 = JsString ''orders''"
  "IsString (info_at (orders_info acks) 0)"
  "IsObject (info_at (orders_info acks) 1)"
  "Conf_create example_ext (info_at (orders_info acks) 1) = Inr [(''acks'', Some acks)]"
  "Unwrap_Connection example_ext (info_at (orders_info acks) 2) = Some 0"
  by (simp_all add: orders_info_def info_at_def example_ext_def)

text \<open>Creating \<open>orders\<close> on the example library, in a state where connection 0 is up.\<close>

lemma orders_created:
  assumes "connections w 0"
  shows "New example_ext w True (orders_info acks) =
           (Returned (length (topics w)),
            w\<lparr>connections := (connections w)(0 := True),
              topics := topics w @
                [\<lparr>m_topic = Some ''orders'', m_topic_name = ''orders'',
                  m_config = [(''acks'', Some acks)], m_handle = Some 0\<rparr>]\<rparr>)"
proof -
  have nm: "std_string (Utf8String example_ext (ToString example_ext
      (info_at (orders_info acks) 0))) = ''orders''"
    by (simp add: orders_info_valid(2) ToString_def std_string_def example_conversions)
  have ct: "CreateTopic example_ext (connections w 0)
      (std_string (Utf8String example_ext (ToString example_ext (info_at (orders_info acks) 0))))
      [(''acks'', Some acks)] = (Baton_data (Some ''orders''), True)"
    unfolding nm using assms by (simp add: example_ext_def)
  from New_constructs [OF orders_info_valid(1) orders_info_valid(3) orders_info_valid(4)
      orders_info_valid(5) orders_info_valid(6) ct]
  show ?thesis by (simp add: nm Baton_data_def)
qed

lemma orders_twice_topics:
  "topics orders_twice =
     [\<lparr>m_topic = Some ''orders'', m_topic_name = ''orders'',
        m_config = [(''acks'', Some ''1'')], m_handle = Some 0\<rparr>,
      \<lparr>m_topic = Some ''orders'', m_topic_name = ''orders'',
        m_config = [(''acks'', Some ''0'')], m_handle = Some 0\<rparr>]"
proof -
  have up: "connections (example_world True) 0"
    by (simp add: example_world_def)
  have nil: "topics (example_world True) = []"
    by (simp add: example_world_def)
  let ?w1 = "snd (New example_ext (example_world True) True (orders_info ''1''))"
  have up1: "connections ?w1 0"
    by (simp add: orders_created [OF up])
  have t1: "topics ?w1 = [\<lparr>m_topic = Some ''orders'', m_topic_name = ''orders'',
        m_config = [(''acks'', Some ''1'')], m_handle = Some 0\<rparr>]"
    by (simp add: orders_created [OF up] nil)
  show ?thesis
    unfolding orders_twice_def by (simp add: orders_created [OF up1] t1)
qed

subsection \<open>Config lookup: three outcomes\<close>

text \<open>
  Claim C1. A \<open>get\<close> call with a key argument on a Topic has exactly three outcomes,
  decided by the result code of the library's \<open>Conf::get\<close> for that key on the Topic's
  configuration: \<open>CONF_UNKNOWN\<close> returns \<open>undefined\<close> (the absent sentinel, no error),
  \<open>CONF_INVALID\<close> throws, and \<open>CONF_OK\<close> returns the value as a string. The three
  completions are different, and each occurs for its own result code only, so absent and
  error are never conflated. The key looked up is the argument's string conversion,
  encoded in UTF-8 and read as a C string; the statement holds for every argument, the
  empty string included.
\<close>

theorem NodeGet_three_outcomes:
  assumes "this < length (topics w)" and "info \<noteq> []"
    and "Conf_get ext (m_config (topics w ! this))
           (std_string (Utf8String ext (ToString ext (info_at info 0)))) = (res, val)"
  shows "(res = CONF_UNKNOWN \<longrightarrow> fst (NodeGet ext w this info) = Returned Undefined)
       \<and> (res = CONF_INVALID \<longrightarrow> fst (NodeGet ext w this info)
              = Threw ''Topic configuration retroactively invalid...'')
       \<and> (res = CONF_OK \<longrightarrow> fst (NodeGet ext w this info)
              = Returned (JsString (Nan_New ext val)))
       \<and> (fst (NodeGet ext w this info) = Returned Undefined \<longrightarrow> res = CONF_UNKNOWN)
       \<and> ((\<exists>msg. fst (NodeGet ext w this info) = Threw msg) \<longrightarrow> res = CONF_INVALID)
       \<and> ((\<exists>s. fst (NodeGet ext w this info) = Returned (JsString s)) \<longrightarrow> res = CONF_OK)"
  using assms by (cases res) (simp_all add: NodeGet_def)

text \<open>
  The scenario of the spec on the example Topic: \<open>get("acks")\<close> is \<open>"1"\<close>,
  \<open>get("missing")\<close> and \<open>get("")\<close> are absent, and the property the library reports as
  invalid throws.
\<close>

theorem NodeGet_three_outcomes_witness:
  "fst (NodeGet example_ext (example_topic_world True) 0 [JsString ''acks''])
     = Returned (JsString ''1'')
   \<and> fst (NodeGet example_ext (example_topic_world True) 0 [JsString ''missing''])
     = Returned Undefined
   \<and> fst (NodeGet example_ext (example_topic_world True) 0 [JsString ''''])
     = Returned Undefined
   \<and> fst (NodeGet example_ext (example_topic_world True) 0 [JsString ''partitioner_cb''])
     = Threw ''Topic configuration retroactively invalid...''"
proof -
  let ?w = "example_topic_world True"
  have valid: "0 < length (topics ?w)"
    by (simp add: example_topic_world_def)
  have look: "Conf_get example_ext (m_config (topics ?w ! 0))
        (std_string (Utf8String example_ext (ToString example_ext (info_at [JsString k] 0))))
      = (case map_of [(''acks'', Some ''1''), (''partitioner_cb'', None)] (std_string k) of
           None \<Rightarrow> (CONF_UNKNOWN, '''')
         | Some None \<Rightarrow> (CONF_INVALID, '''')
         | Some (Some v) \<Rightarrow> (CONF_OK, v))" for k
    by (simp add: example_topic_world_def example_topic_def example_ext_def
        ToString_def info_at_def)
  have acks: "Conf_get example_ext (m_config (topics ?w ! 0))
        (std_string (Utf8String example_ext (ToString example_ext (info_at [JsString ''acks''] 0))))
      = (CONF_OK, ''1'')"
    unfolding look by (simp add: std_string_def)
  have missing: "Conf_get example_ext (m_config (topics ?w ! 0))
        (std_string (Utf8String example_ext (ToString example_ext (info_at [JsString ''missing''] 0))))
      = (CONF_UNKNOWN, '''')"
    unfolding look by (simp add: std_string_def)
  have empty: "Conf_get example_ext (m_config (topics ?w ! 0))
        (std_string (Utf8String example_ext (ToString example_ext (info_at [JsString ''''] 0))))
      = (CONF_UNKNOWN, '''')"
    unfolding look by (simp add: std_string_def)
  have stale: "Conf_get example_ext (m_config (topics ?w ! 0))
        (std_string (Utf8String example_ext (ToString example_ext (info_at [JsString ''partitioner_cb''] 0))))
      = (CONF_INVALID, '''')"
    unfolding look by (simp add: std_string_def)
  have ne: "[JsString k :: ((string \<times> string) list + nat, string) Value] \<noteq> []" for k
    by simp
  have r1: "fst (NodeGet example_ext ?w 0 [JsString ''acks'']) = Returned (JsString ''1'')"
    using NodeGet_three_outcomes [OF valid ne acks] by (simp add: example_conversions)
  have r2: "fst (NodeGet example_ext ?w 0 [JsString ''missing'']) = Returned Undefined"
    using NodeGet_three_outcomes [OF valid ne missing] by simp
  have r3: "fst (NodeGet example_ext ?w 0 [JsString '''']) = Returned Undefined"
    using NodeGet_three_outcomes [OF valid ne empty] by simp
  have r4: "fst (NodeGet example_ext ?w 0 [JsString ''partitioner_cb''])
      = Threw ''Topic configuration retroactively invalid...''"
    using NodeGet_three_outcomes [OF valid ne stale] by simp
  from r1 r2 r3 r4 show ?thesis by (intro conjI)
qed

subsection \<open>The connection gate\<close>

text \<open>
  Claim C2. For every Topic and every call, in whatever state the call is made,
  \<open>toRdKafkaTopic\<close> returns the \<open>ERR__STATE\<close> Baton (the not-connected error) if and
  only if the Topic has no owning connection or that connection is not connected in the
  state of the call; otherwise it returns the successful Baton around \<open>m_topic\<close>. The
  connection is read from the state of the call: a Topic whose call succeeds in one
  state fails in any state in which its connection's flag is false.
\<close>

theorem toRdKafkaTopic_NotConnected_iff:
  "(err (toRdKafkaTopic ext w topic) = ERR__STATE
      \<longleftrightarrow> (case m_handle topic of
             None \<Rightarrow> True
           | Some h \<Rightarrow> \<not> IsConnected ext (connections w h)))
   \<and> (err (toRdKafkaTopic ext w topic) = ERR__STATE
      \<longrightarrow> toRdKafkaTopic ext w topic = Baton_err ERR__STATE)
   \<and> (err (toRdKafkaTopic ext w topic) \<noteq> ERR__STATE
      \<longrightarrow> toRdKafkaTopic ext w topic = Baton_data (m_topic topic))
   \<and> (m_handle topic = Some h \<and> IsConnected ext (connections w h)
        \<and> \<not> IsConnected ext (connections w' h)
      \<longrightarrow> err (toRdKafkaTopic ext w topic) = ERR_NO_ERROR
        \<and> toRdKafkaTopic ext w' topic = Baton_err ERR__STATE)"
  by (simp add: toRdKafkaTopic_def Baton_data_def Baton_err_def split: option.splits)

text \<open>
  The example Topic: the call succeeds while connection 0 is connected, fails once the
  flag is false, and fails for a Topic without a connection.
\<close>

theorem toRdKafkaTopic_NotConnected_iff_witness:
  "err (toRdKafkaTopic example_ext (example_topic_world True) example_topic) = ERR_NO_ERROR
   \<and> toRdKafkaTopic example_ext (example_topic_world False) example_topic
     = Baton_err ERR__STATE
   \<and> err (toRdKafkaTopic example_ext (example_topic_world True)
        (example_topic\<lparr>m_handle := None\<rparr>)) = ERR__STATE"
proof -
  have h: "m_handle example_topic = Some 0"
    by (simp add: example_topic_def)
  have up: "IsConnected example_ext (connections (example_topic_world True) 0)"
    by (simp add: example_ext_def example_topic_world_def)
  have down: "\<not> IsConnected example_ext (connections (example_topic_world False) 0)"
    by (simp add: example_ext_def example_topic_world_def)
  have none: "m_handle (example_topic\<lparr>m_handle := None\<rparr>) = None"
    by simp
  from toRdKafkaTopic_NotConnected_iff
      [of example_ext "example_topic_world True" example_topic 0 "example_topic_world False"]
    toRdKafkaTopic_NotConnected_iff
      [of example_ext "example_topic_world True" "example_topic\<lparr>m_handle := None\<rparr>"]
    h up down none
  show ?thesis by simp
qed

subsection \<open>Lookups leave the Topic alone\<close>

text \<open>
  Claim C7. For every Topic and every sequence of \<open>get\<close> calls on it, the state after
  the whole sequence is the state before it: in particular the Topic objects, and with
  them the Topic's stored configuration, are unchanged. Each lookup reads the
  configuration on demand, so every call of the sequence completes as it would have
  completed on the initial state.
\<close>

theorem NodeGet_all_frame:
  "snd (NodeGet_all ext w this infos) = w
   \<and> topics (snd (NodeGet_all ext w this infos)) = topics w
   \<and> fst (NodeGet_all ext w this infos) = map (\<lambda>info. fst (NodeGet ext w this info)) infos"
proof (induction infos)
  case Nil
  show ?case by simp
next
  case (Cons info infos)
  obtain r w' where step: "NodeGet ext w this info = (r, w')"
    by (cases "NodeGet ext w this info")
  with NodeGet_frame [of ext w this info] have same: "w' = w" by simp
  obtain rs w'' where rest: "NodeGet_all ext w this infos = (rs, w'')"
    by (cases "NodeGet_all ext w this infos")
  from Cons.IH rest have "w'' = w" and "rs = map (\<lambda>info. fst (NodeGet ext w this info)) infos"
    by simp_all
  with step same rest show ?case by simp
qed

text \<open>
  Three calls on the example Topic, one of them throwing: the configuration is what it
  was, and a repeated lookup gives the same value.
\<close>

theorem NodeGet_all_frame_witness:
  "m_config (topics (snd (NodeGet_all example_ext (example_topic_world True) 0
       [[JsString ''acks''], [JsString ''partitioner_cb''], [JsString ''acks'']])) ! 0)
     = [(''acks'', Some ''1''), (''partitioner_cb'', None)]
   \<and> fst (NodeGet_all example_ext (example_topic_world True) 0
       [[JsString ''acks''], [JsString ''partitioner_cb''], [JsString ''acks'']])
     = [Returned (JsString ''1''),
        Threw ''Topic configuration retroactively invalid...'',
        Returned (JsString ''1'')]"
proof -
  let ?infos = "[[JsString ''acks''], [JsString ''partitioner_cb''], [JsString ''acks'']]
    :: ((string \<times> string) list + nat, string) Value list list"
  note frame = NodeGet_all_frame [of example_ext "example_topic_world True" 0 ?infos]
  have acks: "fst (NodeGet example_ext (example_topic_world True) 0 [JsString ''acks''])
      = Returned (JsString ''1'')"
    by (simp add: NodeGet_def example_topic_world_def example_topic_def example_ext_def
        ToString_def info_at_def std_string_def)
  have stale: "fst (NodeGet example_ext (example_topic_world True) 0
        [JsString ''partitioner_cb''])
      = Threw ''Topic configuration retroactively invalid...''"
    by (simp add: NodeGet_def example_topic_world_def example_topic_def example_ext_def
        ToString_def info_at_def std_string_def)
  have conf: "m_config (topics (example_topic_world True) ! 0)
      = [(''acks'', Some ''1''), (''partitioner_cb'', None)]"
    by (simp add: example_topic_world_def example_topic_def)
  from frame have "snd (NodeGet_all example_ext (example_topic_world True) 0 ?infos)
      = example_topic_world True"
    and "fst (NodeGet_all example_ext (example_topic_world True) 0 ?infos)
      = map (\<lambda>info. fst (NodeGet example_ext (example_topic_world True) 0 info)) ?infos"
    by (rule conjunct1, rule conjunct2 [THEN conjunct2])
  with acks stale conf show ?thesis by simp
qed

subsection \<open>A lookup without a key\<close>

text \<open>
  Claim C9. \<open>get\<close> called with no argument on a Topic throws the error
  \<open>Must provide a config key to lookup.\<close> and leaves the state, the Topic and its
  configuration included, unchanged. \<open>undefined\<close>, the absent sentinel, is returned only
  by a call that was given an argument.
\<close>

theorem NodeGet_no_argument:
  "(this < length (topics w)
      \<longrightarrow> NodeGet ext w this [] = (Threw ''Must provide a config key to lookup.'', w))
   \<and> (fst (NodeGet ext w this info) = Returned Undefined \<longrightarrow> info \<noteq> [])"
  by (auto simp: NodeGet_def)

theorem NodeGet_no_argument_witness:
  "NodeGet example_ext (example_topic_world True) 0 []
     = (Threw ''Must provide a config key to lookup.'', example_topic_world True)"
proof -
  have valid: "0 < length (topics (example_topic_world True))"
    by (simp add: example_topic_world_def)
  from NodeGet_no_argument [of 0 "example_topic_world True" example_ext] valid
  show ?thesis by simp
qed

subsection \<open>Creation checks its arguments first\<close>

text \<open>
  Claim C10. \<open>New\<close> validates before it constructs. A call that is not a constructor
  call, a call with fewer than three arguments, a topic name that is not a string, a
  configuration that is not an object, and a configuration \<open>Conf::create\<close> rejects each
  make \<open>New\<close> throw at once (with the message given below), and in each of these cases
  the state is returned as it was: no Topic object has been constructed.
\<close>

theorem New_rejects_before_construction:
  "(\<not> c \<longrightarrow> New ext w c info = (Threw ''non-constructor invocation not supported'', w))
   \<and> (c \<and> length info < 3
        \<longrightarrow> New ext w c info = (Threw ''Handle, topic name and configuration required'', w))
   \<and> (c \<and> 3 \<le> length info \<and> \<not> IsString (info_at info 0)
        \<longrightarrow> New ext w c info = (Threw ''Topic name must be a string'', w))
   \<and> (c \<and> 3 \<le> length info \<and> IsString (info_at info 0) \<and> \<not> IsObject (info_at info 1)
        \<longrightarrow> New ext w c info = (Threw ''Configuration data must be specified'', w))
   \<and> (c \<and> 3 \<le> length info \<and> IsString (info_at info 0) \<and> IsObject (info_at info 1)
        \<and> Conf_create ext (info_at info 1) = Inl errstr
        \<longrightarrow> New ext w c info = (Threw (std_string errstr), w))
   \<and> (\<not> c \<or> length info < 3 \<or> \<not> IsString (info_at info 0) \<or> \<not> IsObject (info_at info 1)
        \<or> isl (Conf_create ext (info_at info 1))
        \<longrightarrow> (\<exists>msg. New ext w c info = (Threw msg, w)))"
  by (auto simp: New_def Let_def isl_def)

text \<open>
  The five rejections on the example library; the state, which holds no Topic, comes back
  unchanged each time.
\<close>

theorem New_rejects_before_construction_witness:
  "New example_ext (example_world True) False (orders_info ''1'')
     = (Threw ''non-constructor invocation not supported'', example_world True)
   \<and> New example_ext (example_world True) True [JsString ''orders'', JsObject (Inl [])]
     = (Threw ''Handle, topic name and configuration required'', example_world True)
   \<and> New example_ext (example_world True) True
        [JsNumber 7, JsObject (Inl []), JsObject (Inr 0)]
     = (Threw ''Topic name must be a string'', example_world True)
   \<and> New example_ext (example_world True) True
        [JsString ''orders'', Undefined, JsObject (Inr 0)]
     = (Threw ''Configuration data must be specified'', example_world True)
   \<and> New example_ext (example_world True) True
        [JsString ''orders'', JsObject (Inl [(''bogus'', ''1'')]), JsObject (Inr 0)]
     = (Threw ''No such configuration property'', example_world True)"
proof -
  let ?w = "example_world True"
  have r1: "New example_ext ?w False (orders_info ''1'')
      = (Threw ''non-constructor invocation not supported'', ?w)"
    using New_rejects_before_construction [of False example_ext ?w "orders_info ''1''"]
    by simp
  have r2: "New example_ext ?w True [JsString ''orders'', JsObject (Inl [])]
      = (Threw ''Handle, topic name and configuration required'', ?w)"
    using New_rejects_before_construction
      [of True example_ext ?w "[JsString ''orders'', JsObject (Inl [])]"]
    by simp
  have r3: "New example_ext ?w True [JsNumber 7, JsObject (Inl []), JsObject (Inr 0)]
      = (Threw ''Topic name must be a string'', ?w)"
    using New_rejects_before_construction
      [of True example_ext ?w "[JsNumber 7, JsObject (Inl []), JsObject (Inr 0)]"]
    by (simp add: info_at_def)
  have r4: "New example_ext ?w True [JsString ''orders'', Undefined, JsObject (Inr 0)]
      = (Threw ''Configuration data must be specified'', ?w)"
    using New_rejects_before_construction
      [of True example_ext ?w "[JsString ''orders'', Undefined, JsObject (Inr 0)]"]
    by (simp add: info_at_def)
  have bogus: "Conf_create example_ext
      (info_at [JsString ''orders'', JsObject (Inl [(''bogus'', ''1'')]), JsObject (Inr 0)] 1)
      = Inl ''No such configuration property''"
    by (simp add: info_at_def example_ext_def)
  have msg: "std_string ''No such configuration property'' = ''No such configuration property''"
    by (simp add: std_string_def)
  have r5: "New example_ext ?w True
        [JsString ''orders'', JsObject (Inl [(''bogus'', ''1'')]), JsObject (Inr 0)]
      = (Threw ''No such configuration property'', ?w)"
    using New_rejects_before_construction
      [of True example_ext ?w
        "[JsString ''orders'', JsObject (Inl [(''bogus'', ''1'')]), JsObject (Inr 0)]"
        "''No such configuration property''"] bogus msg
    by (simp add: info_at_def)
  from r1 r2 r3 r4 r5 show ?thesis by (intro conjI)
qed

subsection \<open>The name of a created Topic\<close>

text \<open>
  Claim C5 says that for every valid triple the created Topic's name is the input name
  exactly. \<open>New\<close> accepts every string as a name and copies it as a C string, which ends
  at the first NUL: on the example library, with connection 0 connected and the
  configuration \<open>acks = 1\<close>, the name made of \<open>a\<close>, NUL and \<open>b\<close> is accepted, and
  \<open>Name()\<close> and the \<open>name\<close> method return \<open>a\<close>.
\<close>

theorem New_name_roundtrip_counterexample:
  "fst (New example_ext (example_world True) True
          [JsString [CHR ''a'', CHR 0x00, CHR ''b''], JsObject (Inl [(''acks'', ''1'')]),
           JsObject (Inr 0)]) = Returned 0
   \<and> Name (topics (snd (New example_ext (example_world True) True
          [JsString [CHR ''a'', CHR 0x00, CHR ''b''], JsObject (Inl [(''acks'', ''1'')]),
           JsObject (Inr 0)])) ! 0) = ''a''
   \<and> fst (NodeGetName example_ext (snd (New example_ext (example_world True) True
          [JsString [CHR ''a'', CHR 0x00, CHR ''b''], JsObject (Inl [(''acks'', ''1'')]),
           JsObject (Inr 0)])) 0 []) = Returned (JsString ''a'')
   \<and> fst (NodeGetName example_ext (snd (New example_ext (example_world True) True
          [JsString [CHR ''a'', CHR 0x00, CHR ''b''], JsObject (Inl [(''acks'', ''1'')]),
           JsObject (Inr 0)])) 0 []) \<noteq> Returned (JsString [CHR ''a'', CHR 0x00, CHR ''b''])"
  by (simp add: New_def Topic_ctor_def NodeGetName_def Name_def example_ext_def
      example_world_def info_at_def ToString_def std_string_def Baton_data_def Let_def)

text \<open>
  Claim C5, amended. For every triple of a string name, a configuration object that
  \<open>Conf::create\<close> accepts and a handle that wraps a Connection, \<open>New\<close> succeeds and
  returns the new Topic. The Topic's \<open>Name()\<close> is the UTF-8 encoding of the input name
  up to its first NUL byte, and the \<open>name\<close> method returns that text converted back to
  a JavaScript string. The result is the input name exactly whenever the name's encoding
  holds no NUL byte and decodes back to the name (which excludes an unpaired surrogate).
  Nothing is asked of the connection's state: the name is returned in every later state
  of the connections, also in one where the owning connection is not connected and
  \<open>toRdKafkaTopic\<close> fails.
\<close>

theorem New_name_roundtrip:
  assumes "3 \<le> length info" and "info_at info 0 = JsString name"
    and "IsObject (info_at info 1)" and "Conf_create ext (info_at info 1) = Inr config"
    and "Unwrap_Connection ext (info_at info 2) = Some h"
    and "New ext w True info = (r, w')"
  shows "r = Returned (length (topics w))
       \<and> length (topics w') = Suc (length (topics w))
       \<and> Name (topics w' ! length (topics w)) = std_string (Utf8String ext name)
       \<and> (\<forall>conns''. NodeGetName ext (w'\<lparr>connections := conns''\<rparr>) (length (topics w)) args
               = (Returned (JsString (Nan_New ext (std_string (Utf8String ext name)))),
                  w'\<lparr>connections := conns''\<rparr>))
       \<and> (\<forall>conns''. \<not> IsConnected ext (conns'' h) \<longrightarrow>
               toRdKafkaTopic ext (w'\<lparr>connections := conns''\<rparr>) (topics w' ! length (topics w))
               = Baton_err ERR__STATE)
       \<and> (CHR 0x00 \<notin> set (Utf8String ext name)
            \<longrightarrow> Name (topics w' ! length (topics w)) = Utf8String ext name)
       \<and> (CHR 0x00 \<notin> set (Utf8String ext name) \<and> Nan_New ext (Utf8String ext name) = name
            \<longrightarrow> NodeGetName ext w' (length (topics w)) args = (Returned (JsString name), w')
              \<and> (\<forall>conns''.
                    NodeGetName ext (w'\<lparr>connections := conns''\<rparr>) (length (topics w)) args
                    = (Returned (JsString name), w'\<lparr>connections := conns''\<rparr>)))"
proof -
  obtain b c' where ct: "CreateTopic ext (connections w h)
      (std_string (Utf8String ext (ToString ext (info_at info 0)))) config = (b, c')"
    by (cases "CreateTopic ext (connections w h)
      (std_string (Utf8String ext (ToString ext (info_at info 0)))) config")
  have str: "IsString (info_at info 0)" using assms(2) by simp
  have nm: "std_string (Utf8String ext (ToString ext (info_at info 0)))
      = std_string (Utf8String ext name)"
    using assms(2) by (simp add: ToString_def)
  from New_constructs [OF assms(1) str assms(3) assms(4) assms(5) ct] assms(6) nm
  have r: "r = Returned (length (topics w))"
    and w': "w' = w\<lparr>connections := (connections w)(h := c'),
              topics := topics w @
                [\<lparr>m_topic = (if err b = ERR_NO_ERROR then data b else None),
                  m_topic_name = std_string (Utf8String ext name),
                  m_config = config, m_handle = Some h\<rparr>]\<rparr>"
    by simp_all
  show ?thesis
    unfolding r w'
    by (simp add: Name_def NodeGetName_def toRdKafkaTopic_def std_string_id)
qed

text \<open>
  The scenario of the spec: \<open>orders\<close> is created on the connected connection 0; its name
  is \<open>orders\<close>, and still is once no connection is connected, when \<open>toRdKafkaTopic\<close>
  fails.
\<close>

theorem New_name_roundtrip_witness:
  "fst (New example_ext (example_world True) True (orders_info ''1'')) = Returned 0
   \<and> Name (topics (snd (New example_ext (example_world True) True (orders_info ''1''))) ! 0)
     = ''orders''
   \<and> fst (NodeGetName example_ext
        ((snd (New example_ext (example_world True) True (orders_info ''1'')))
           \<lparr>connections := (\<lambda>p. False)\<rparr>) 0 [])
     = Returned (JsString ''orders'')
   \<and> toRdKafkaTopic example_ext
        ((snd (New example_ext (example_world True) True (orders_info ''1'')))
           \<lparr>connections := (\<lambda>p. False)\<rparr>)
        (topics (snd (New example_ext (example_world True) True (orders_info ''1''))) ! 0)
     = Baton_err ERR__STATE"
proof -
  let ?N = "New example_ext (example_world True) True (orders_info ''1'')"
  have run: "?N = (fst ?N, snd ?N)" by simp
  have len: "length (topics (example_world True)) = 0"
    by (simp add: example_world_def)
  have down: "\<not> IsConnected example_ext ((\<lambda>p. False) (0::nat))"
    by (simp add: example_ext_def)
  have clean: "CHR 0x00 \<notin> set (Utf8String example_ext ''orders'')"
    by (simp add: example_conversions)
  have decoded: "Nan_New example_ext (Utf8String example_ext ''orders'') = ''orders''"
    by (simp add: example_conversions)
  note inst = New_name_roundtrip [OF orders_info_valid(1) orders_info_valid(2)
      orders_info_valid(4) orders_info_valid(5) orders_info_valid(6) run, of "[]",
      unfolded len]
  from inst have r: "fst ?N = Returned 0"
    by (rule conjunct1)
  from inst have "CHR 0x00 \<notin> set (Utf8String example_ext ''orders'')
      \<longrightarrow> Name (topics (snd ?N) ! 0) = Utf8String example_ext ''orders''"
    by (rule conjunct2 [THEN conjunct2, THEN conjunct2, THEN conjunct2, THEN conjunct2,
        THEN conjunct1])
  with clean have n: "Name (topics (snd ?N) ! 0) = ''orders''"
    by (simp add: example_conversions)
  from inst have "CHR 0x00 \<notin> set (Utf8String example_ext ''orders'')
        \<and> Nan_New example_ext (Utf8String example_ext ''orders'') = ''orders''
      \<longrightarrow> NodeGetName example_ext (snd ?N) 0 [] = (Returned (JsString ''orders''), snd ?N)
        \<and> (\<forall>conns''. NodeGetName example_ext ((snd ?N)\<lparr>connections := conns''\<rparr>) 0 []
              = (Returned (JsString ''orders''), (snd ?N)\<lparr>connections := conns''\<rparr>))"
    by (rule conjunct2 [THEN conjunct2, THEN conjunct2, THEN conjunct2, THEN conjunct2,
        THEN conjunct2])
  with clean decoded
  have "\<forall>conns''. NodeGetName example_ext ((snd ?N)\<lparr>connections := conns''\<rparr>) 0 []
      = (Returned (JsString ''orders''), (snd ?N)\<lparr>connections := conns''\<rparr>)"
    by blast
  then have g: "fst (NodeGetName example_ext ((snd ?N)\<lparr>connections := (\<lambda>p. False)\<rparr>) 0 [])
      = Returned (JsString ''orders'')"
    by simp
  from inst have "\<forall>conns''. \<not> IsConnected example_ext (conns'' 0) \<longrightarrow>
      toRdKafkaTopic example_ext ((snd ?N)\<lparr>connections := conns''\<rparr>) (topics (snd ?N) ! 0)
      = Baton_err ERR__STATE"
    by (rule conjunct2 [THEN conjunct2, THEN conjunct2, THEN conjunct2, THEN conjunct1])
  from this [rule_format, of "\<lambda>p. False"] down
  have t: "toRdKafkaTopic example_ext ((snd ?N)\<lparr>connections := (\<lambda>p. False)\<rparr>)
      (topics (snd ?N) ! 0) = Baton_err ERR__STATE"
    by simp
  from r n g t show ?thesis by (intro conjI)
qed

subsection \<open>A Topic whose native topic could not be created\<close>

text \<open>
  Claim C8. When \<open>CreateTopic\<close> returns a Baton with an error during construction, the
  Topic is constructed all the same, with its name, configuration and connection set and
  a null \<open>m_topic\<close>, and \<open>New\<close> returns it. A later \<open>toRdKafkaTopic\<close> on that Topic,
  in any state in which its connection is connected, returns the successful Baton around
  the null pointer: the connection is the only thing the function tests.
\<close>

theorem CreateTopic_failure_null_handle:
  assumes "3 \<le> length info" and "IsString (info_at info 0)" and "IsObject (info_at info 1)"
    and "Conf_create ext (info_at info 1) = Inr config"
    and "Unwrap_Connection ext (info_at info 2) = Some h"
    and "err (fst (CreateTopic ext (connections w h)
           (std_string (Utf8String ext (ToString ext (info_at info 0)))) config)) \<noteq> ERR_NO_ERROR"
    and "New ext w True info = (r, w')"
  shows "r = Returned (length (topics w))
       \<and> topics w' = topics w @
             [\<lparr>m_topic = None,
               m_topic_name = std_string (Utf8String ext (ToString ext (info_at info 0))),
               m_config = config,
               m_handle = Some h\<rparr>]
       \<and> (\<forall>w''. IsConnected ext (connections w'' h) \<longrightarrow>
             toRdKafkaTopic ext w'' (topics w' ! length (topics w))
             = \<lparr>err = ERR_NO_ERROR, data = None\<rparr>)"
proof -
  obtain b c' where ct: "CreateTopic ext (connections w h)
      (std_string (Utf8String ext (ToString ext (info_at info 0)))) config = (b, c')"
    by (cases "CreateTopic ext (connections w h)
      (std_string (Utf8String ext (ToString ext (info_at info 0)))) config")
  with assms(6) have failed: "err b \<noteq> ERR_NO_ERROR" by simp
  from New_constructs [OF assms(1-5) ct] assms(7) failed
  have r: "r = Returned (length (topics w))"
    and w': "w' = w\<lparr>connections := (connections w)(h := c'),
              topics := topics w @
                [\<lparr>m_topic = None,
                  m_topic_name = std_string (Utf8String ext (ToString ext (info_at info 0))),
                  m_config = config, m_handle = Some h\<rparr>]\<rparr>"
    by simp_all
  show ?thesis
    unfolding r w' by (simp add: toRdKafkaTopic_def Baton_data_def)
qed

text \<open>
  \<open>orders\<close> is created while connection 0 is down, so \<open>CreateTopic\<close> fails; after the
  connection has come up, \<open>toRdKafkaTopic\<close> succeeds with a null topic.
\<close>

theorem CreateTopic_failure_null_handle_witness:
  "fst (New example_ext (example_world False) True (orders_info ''1'')) = Returned 0
   \<and> topics (snd (New example_ext (example_world False) True (orders_info ''1'')))
     = [\<lparr>m_topic = None, m_topic_name = ''orders'', m_config = [(''acks'', Some ''1'')],
         m_handle = Some 0\<rparr>]
   \<and> toRdKafkaTopic example_ext (example_world True)
        (topics (snd (New example_ext (example_world False) True (orders_info ''1''))) ! 0)
     = \<lparr>err = ERR_NO_ERROR, data = None\<rparr>"
proof -
  let ?N = "New example_ext (example_world False) True (orders_info ''1'')"
  have run: "?N = (fst ?N, snd ?N)" by simp
  have nil: "topics (example_world False) = []"
    by (simp add: example_world_def)
  have nm: "std_string (Utf8String example_ext (ToString example_ext
      (info_at (orders_info ''1'') 0))) = ''orders''"
    by (simp add: orders_info_valid(2) ToString_def std_string_def example_conversions)
  have failed: "err (fst (CreateTopic example_ext (connections (example_world False) 0)
      (std_string (Utf8String example_ext (ToString example_ext (info_at (orders_info ''1'') 0))))
      [(''acks'', Some ''1'')])) \<noteq> ERR_NO_ERROR"
    by (simp add: example_ext_def example_world_def Baton_err_def)
  have up: "IsConnected example_ext (connections (example_world True) 0)"
    by (simp add: example_ext_def example_world_def)
  note inst = CreateTopic_failure_null_handle [OF orders_info_valid(1) orders_info_valid(3)
      orders_info_valid(4) orders_info_valid(5) orders_info_valid(6) failed run,
      unfolded nil nm list.size append_Nil]
  from inst have r: "fst ?N = Returned 0"
    by (rule conjunct1)
  from inst have t: "topics (snd ?N)
      = [\<lparr>m_topic = None, m_topic_name = ''orders'', m_config = [(''acks'', Some ''1'')],
          m_handle = Some 0\<rparr>]"
    by (rule conjunct2 [THEN conjunct1])
  from inst have "\<forall>w''. IsConnected example_ext (connections w'' 0) \<longrightarrow>
      toRdKafkaTopic example_ext w'' (topics (snd ?N) ! 0) = \<lparr>err = ERR_NO_ERROR, data = None\<rparr>"
    by (rule conjunct2 [THEN conjunct2])
  with up have g: "toRdKafkaTopic example_ext (example_world True) (topics (snd ?N) ! 0)
      = \<lparr>err = ERR_NO_ERROR, data = None\<rparr>"
    by blast
  from r t g show ?thesis by (intro conjI)
qed

subsection \<open>Creating the same name twice\<close>

text \<open>
  Claim C6 says that two creation requests with the same name on the same connection give
  either the same Topic or a conflict error, never two coexisting Topics with different
  configurations. \<open>New\<close> keeps no registry: on the example library both requests succeed,
  the two Topics are different objects with the same name and connection, and \<open>get("acks")\<close>
  answers \<open>"1"\<close> on the first and \<open>"0"\<close> on the second.
\<close>

theorem New_twice_same_name_counterexample:
  "fst (New example_ext (example_world True) True (orders_info ''1'')) = Returned 0
   \<and> fst (New example_ext (snd (New example_ext (example_world True) True (orders_info ''1'')))
          True (orders_info ''0'')) = Returned 1
   \<and> map m_topic_name (topics orders_twice) = [''orders'', ''orders'']
   \<and> map m_handle (topics orders_twice) = [Some 0, Some 0]
   \<and> fst (NodeGet example_ext orders_twice 0 [JsString ''acks'']) = Returned (JsString ''1'')
   \<and> fst (NodeGet example_ext orders_twice 1 [JsString ''acks'']) = Returned (JsString ''0'')"
proof -
  have up: "connections (example_world True) 0"
    by (simp add: example_world_def)
  have nil: "topics (example_world True) = []"
    by (simp add: example_world_def)
  let ?w1 = "snd (New example_ext (example_world True) True (orders_info ''1''))"
  have up1: "connections ?w1 0"
    by (simp add: orders_created [OF up])
  have len1: "length (topics ?w1) = 1"
    by (simp add: orders_created [OF up] nil)
  have r1: "fst (New example_ext (example_world True) True (orders_info ''1'')) = Returned 0"
    by (simp add: orders_created [OF up] nil)
  have r2: "fst (New example_ext ?w1 True (orders_info ''0'')) = Returned 1"
    by (simp add: orders_created [OF up1] len1)
  have names: "map m_topic_name (topics orders_twice) = [''orders'', ''orders'']"
    by (simp add: orders_twice_topics)
  have conns: "map m_handle (topics orders_twice) = [Some 0, Some 0]"
    by (simp add: orders_twice_topics)
  have g1: "fst (NodeGet example_ext orders_twice 0 [JsString ''acks''])
      = Returned (JsString ''1'')"
    by (simp add: NodeGet_def orders_twice_topics example_ext_def ToString_def info_at_def
        std_string_def)
  have g2: "fst (NodeGet example_ext orders_twice 1 [JsString ''acks''])
      = Returned (JsString ''0'')"
    by (simp add: NodeGet_def orders_twice_topics example_ext_def ToString_def info_at_def
        std_string_def)
  from r1 r2 names conns g1 g2 show ?thesis by (intro conjI)
qed

text \<open>
  Claim C6, amended. Every creation request whose arguments pass the checks of \<open>New\<close>
  constructs a Topic of its own: two such requests with the same name and the same
  connection, made one after the other, return two different Topics that exist side by
  side, both with that name and that connection, each holding the configuration built
  from its own request. Requests are neither coalesced nor refused.
\<close>

theorem New_twice_same_name:
  assumes "3 \<le> length info1" and "info_at info1 0 = JsString name"
    and "IsObject (info_at info1 1)" and "Conf_create ext (info_at info1 1) = Inr config1"
    and "Unwrap_Connection ext (info_at info1 2) = Some h"
    and "3 \<le> length info2" and "info_at info2 0 = JsString name"
    and "IsObject (info_at info2 1)" and "Conf_create ext (info_at info2 1) = Inr config2"
    and "Unwrap_Connection ext (info_at info2 2) = Some h"
    and "New ext w True info1 = (r1, w1)" and "New ext w1 True info2 = (r2, w2)"
  shows "r1 = Returned (length (topics w)) \<and> r2 = Returned (Suc (length (topics w)))
       \<and> length (topics w2) = Suc (Suc (length (topics w)))
       \<and> m_topic_name (topics w2 ! length (topics w)) = std_string (Utf8String ext name)
       \<and> m_topic_name (topics w2 ! Suc (length (topics w))) = std_string (Utf8String ext name)
       \<and> m_handle (topics w2 ! length (topics w)) = Some h
       \<and> m_handle (topics w2 ! Suc (length (topics w))) = Some h
       \<and> m_config (topics w2 ! length (topics w)) = config1
       \<and> m_config (topics w2 ! Suc (length (topics w))) = config2"
proof -
  let ?n = "std_string (Utf8String ext (ToString ext (info_at info1 0)))"
  have n1: "?n = std_string (Utf8String ext name)" using assms(2) by (simp add: ToString_def)
  have n2: "std_string (Utf8String ext (ToString ext (info_at info2 0)))
      = std_string (Utf8String ext name)"
    using assms(7) by (simp add: ToString_def)
  have s1: "IsString (info_at info1 0)" using assms(2) by simp
  have s2: "IsString (info_at info2 0)" using assms(7) by simp
  obtain b1 c1 where ct1: "CreateTopic ext (connections w h) ?n config1 = (b1, c1)"
    by (cases "CreateTopic ext (connections w h) ?n config1")
  from New_constructs [OF assms(1) s1 assms(3) assms(4) assms(5) ct1] assms(11) n1
  have r1: "r1 = Returned (length (topics w))"
    and w1: "topics w1 = topics w @
      [\<lparr>m_topic = (if err b1 = ERR_NO_ERROR then data b1 else None),
        m_topic_name = std_string (Utf8String ext name), m_config = config1,
        m_handle = Some h\<rparr>]"
    by auto
  obtain b2 c2 where ct2: "CreateTopic ext (connections w1 h)
      (std_string (Utf8String ext (ToString ext (info_at info2 0)))) config2 = (b2, c2)"
    by (cases "CreateTopic ext (connections w1 h)
      (std_string (Utf8String ext (ToString ext (info_at info2 0)))) config2")
  from New_constructs [OF assms(6) s2 assms(8) assms(9) assms(10) ct2] assms(12) n2 w1
  have r2: "r2 = Returned (Suc (length (topics w)))"
    and w2: "topics w2 = topics w @
      [\<lparr>m_topic = (if err b1 = ERR_NO_ERROR then data b1 else None),
        m_topic_name = std_string (Utf8String ext name), m_config = config1,
        m_handle = Some h\<rparr>,
       \<lparr>m_topic = (if err b2 = ERR_NO_ERROR then data b2 else None),
        m_topic_name = std_string (Utf8String ext name), m_config = config2,
        m_handle = Some h\<rparr>]"
    by auto
  show ?thesis
    unfolding r1 r2 w2 by (simp add: nth_append)
qed

theorem New_twice_same_name_witness:
  "length (topics orders_twice) = 2
   \<and> m_topic_name (topics orders_twice ! 0) = ''orders''
   \<and> m_topic_name (topics orders_twice ! 1) = ''orders''
   \<and> m_config (topics orders_twice ! 0) = [(''acks'', Some ''1'')]
   \<and> m_config (topics orders_twice ! 1) = [(''acks'', Some ''0'')]"
proof -
  let ?N1 = "New example_ext (example_world True) True (orders_info ''1'')"
  let ?N2 = "New example_ext (snd ?N1) True (orders_info ''0'')"
  have run1: "?N1 = (fst ?N1, snd ?N1)" by simp
  have run2: "New example_ext (snd ?N1) True (orders_info ''0'') = (fst ?N2, orders_twice)"
    by (simp add: orders_twice_def)
  have nil: "topics (example_world True) = []"
    by (simp add: example_world_def)
  have nm: "std_string (Utf8String example_ext ''orders'') = ''orders''"
    by (simp add: std_string_def example_conversions)
  note inst = New_twice_same_name [OF orders_info_valid(1) orders_info_valid(2)
      orders_info_valid(4) orders_info_valid(5) orders_info_valid(6)
      orders_info_valid(1) orders_info_valid(2)
      orders_info_valid(4) orders_info_valid(5) orders_info_valid(6) run1 run2,
      unfolded nil nm list.size]
  from inst show ?thesis by simp
qed

subsection \<open>What creation rejects\<close>

text \<open>
  Claim C4 says that creation fails whenever the topic name is the empty string. \<open>New\<close>
  tests the name with \<open>IsString\<close> only: on the example library the empty name is
  accepted, the Topic is created and its name is the empty string.
\<close>

theorem New_empty_name_counterexample:
  "fst (New example_ext (example_world True) True
          [JsString '''', JsObject (Inl [(''acks'', ''1'')]), JsObject (Inr 0)]) = Returned 0
   \<and> topics (snd (New example_ext (example_world True) True
          [JsString '''', JsObject (Inl [(''acks'', ''1'')]), JsObject (Inr 0)]))
     = [\<lparr>m_topic = Some '''', m_topic_name = '''', m_config = [(''acks'', Some ''1'')],
         m_handle = Some 0\<rparr>]"
  by (simp add: New_def Topic_ctor_def example_ext_def example_world_def info_at_def
      ToString_def std_string_def Baton_data_def)

text \<open>
  Claim C4, amended. A constructor call of \<open>New\<close> with three arguments fails with an
  error whenever the topic name is not a string or the configuration is malformed, that is
  not an object or rejected by \<open>Conf::create\<close>; no Topic is constructed then. The name is
  tested for being a string and for nothing else: with a configuration the library
  accepts, a handle that wraps a Connection and a \<open>CreateTopic\<close> that succeeds, every
  string name, the empty one included, is accepted.
\<close>

theorem New_rejects_bad_name_or_config:
  assumes "3 \<le> length info"
  shows "(\<not> IsString (info_at info 0)
            \<longrightarrow> New ext w True info = (Threw ''Topic name must be a string'', w))
       \<and> (IsString (info_at info 0) \<and> \<not> IsObject (info_at info 1)
            \<longrightarrow> New ext w True info = (Threw ''Configuration data must be specified'', w))
       \<and> (IsString (info_at info 0) \<and> IsObject (info_at info 1)
            \<and> Conf_create ext (info_at info 1) = Inl errstr
            \<longrightarrow> New ext w True info = (Threw (std_string errstr), w))
       \<and> (info_at info 0 = JsString name \<and> IsObject (info_at info 1)
            \<and> Conf_create ext (info_at info 1) = Inr config
            \<and> Unwrap_Connection ext (info_at info 2) = Some h
            \<and> err (fst (CreateTopic ext (connections w h)
                  (std_string (Utf8String ext name)) config))
                = ERR_NO_ERROR
            \<longrightarrow> fst (New ext w True info) = Returned (length (topics w)))"
  using assms
  by (auto simp: New_def Topic_ctor_def ToString_def Let_def split: prod.splits)

text \<open>
  On the example library: a number as name, a string as configuration and an unknown
  property are rejected; the empty name with the configuration \<open>acks = 1\<close> is accepted.
\<close>

theorem New_rejects_bad_name_or_config_witness:
  "New example_ext (example_world True) True
       [JsNumber 7, JsObject (Inl [(''acks'', ''1'')]), JsObject (Inr 0)]
     = (Threw ''Topic name must be a string'', example_world True)
   \<and> New example_ext (example_world True) True
       [JsString ''orders'', JsString ''acks=1'', JsObject (Inr 0)]
     = (Threw ''Configuration data must be specified'', example_world True)
   \<and> New example_ext (example_world True) True
       [JsString ''orders'', JsObject (Inl [(''bogus'', ''1'')]), JsObject (Inr 0)]
     = (Threw ''No such configuration property'', example_world True)
   \<and> fst (New example_ext (example_world True) True
       [JsString '''', JsObject (Inl [(''acks'', ''1'')]), JsObject (Inr 0)]) = Returned 0"
proof -
  let ?w = "example_world True"
  have r1: "New example_ext ?w True
        [JsNumber 7, JsObject (Inl [(''acks'', ''1'')]), JsObject (Inr 0)]
      = (Threw ''Topic name must be a string'', ?w)"
    using New_rejects_bad_name_or_config [of
        "[JsNumber 7, JsObject (Inl [(''acks'', ''1'')]), JsObject (Inr 0)]" example_ext ?w]
    by (simp add: info_at_def)
  have r2: "New example_ext ?w True [JsString ''orders'', JsString ''acks=1'', JsObject (Inr 0)]
      = (Threw ''Configuration data must be specified'', ?w)"
    using New_rejects_bad_name_or_config [of
        "[JsString ''orders'', JsString ''acks=1'', JsObject (Inr 0)]" example_ext ?w]
    by (simp add: info_at_def)
  have bogus: "Conf_create example_ext
      (info_at [JsString ''orders'', JsObject (Inl [(''bogus'', ''1'')]), JsObject (Inr 0)] 1)
      = Inl ''No such configuration property''"
    by (simp add: info_at_def example_ext_def)
  have msg: "std_string ''No such configuration property'' = ''No such configuration property''"
    by (simp add: std_string_def)
  have r3: "New example_ext ?w True
        [JsString ''orders'', JsObject (Inl [(''bogus'', ''1'')]), JsObject (Inr 0)]
      = (Threw ''No such configuration property'', ?w)"
    using New_rejects_bad_name_or_config [of
        "[JsString ''orders'', JsObject (Inl [(''bogus'', ''1'')]), JsObject (Inr 0)]"
        example_ext ?w "''No such configuration property''"] bogus msg
    by (simp add: info_at_def)
  have ok: "Conf_create example_ext
      (info_at [JsString '''', JsObject (Inl [(''acks'', ''1'')]), JsObject (Inr 0)] 1)
      = Inr [(''acks'', Some ''1'')]"
    by (simp add: info_at_def example_ext_def)
  have conn: "Unwrap_Connection example_ext
      (info_at [JsString '''', JsObject (Inl [(''acks'', ''1'')]), JsObject (Inr 0)] 2) = Some 0"
    by (simp add: info_at_def example_ext_def)
  have made: "err (fst (CreateTopic example_ext (connections ?w 0)
      (std_string (Utf8String example_ext ''''))
      [(''acks'', Some ''1'')])) = ERR_NO_ERROR"
    by (simp add: example_ext_def example_world_def Baton_data_def)
  have nil: "length (topics ?w) = 0"
    by (simp add: example_world_def)
  have r4: "fst (New example_ext ?w True
        [JsString '''', JsObject (Inl [(''acks'', ''1'')]), JsObject (Inr 0)]) = Returned 0"
    using New_rejects_bad_name_or_config [of
        "[JsString '''', JsObject (Inl [(''acks'', ''1'')]), JsObject (Inr 0)]"
        example_ext ?w _ "''''" "[(''acks'', Some ''1'')]" 0] ok conn made nil
    by (simp add: info_at_def)
  from r1 r2 r3 r4 show ?thesis by (intro conjI)
qed

subsection \<open>A failure of CreateTopic is not reported\<close>

text \<open>
  Claim C3 says that every error of a Topic operation reaches the caller, the failure of
  \<open>CreateTopic\<close> during construction in particular. The constructor reads the Baton's
  error code and drops it: on the example library, with connection 0 down,
  \<open>CreateTopic\<close> fails with \<open>ERR__STATE\<close>, and \<open>New\<close> returns the new Topic, whose
  \<open>m_topic\<close> is null, without an error.
\<close>

theorem New_swallows_CreateTopic_error:
  "err (fst (CreateTopic example_ext (connections (example_world False) 0) ''orders''
          [(''acks'', Some ''1'')])) = ERR__STATE
   \<and> fst (New example_ext (example_world False) True (orders_info ''1'')) = Returned 0
   \<and> map m_topic (topics (snd (New example_ext (example_world False) True
          (orders_info ''1'')))) = [None]"
  by (simp add: New_def Topic_ctor_def example_ext_def example_world_def orders_info_def
      info_at_def ToString_def std_string_def Baton_err_def)

end
